theory Spec2Isabelle
  imports Complex_Main
begin

section \<open>Values exchanged with the transport and the caller\<close>

text \<open>
  The embedding follows \<^verbatim>\<open>src/http/http.ts\<close>: \<^verbatim>\<open>grpcCancel\<close> and the
  per-call closure returned by \<^verbatim>\<open>grpcHTTP\<close>.  The helpers it imports from
  \<^verbatim>\<open>./parser\<close>, \<^verbatim>\<open>./utils\<close>, \<^verbatim>\<open>./devtool\<close> and \<^verbatim>\<open>../binary\<close>, the configured
  \<^verbatim>\<open>logger\<close> and hooks, and the JavaScript builtin \<^verbatim>\<open>Number\<close> are parameters
  of the model, collected in the record \<open>env\<close>; every theorem holds for all of
  them.  A helper, sink or hook that can throw says so in its result.
\<close>

type_synonym bytes = "nat list"

text \<open>
  A JavaScript number as far as the controller inspects it: finite doubles are
  rationals, and \<^verbatim>\<open>code >= 0\<close> is false for \<^verbatim>\<open>NaN\<close>.
\<close>

datatype number = NaN | Finite rat | PosInfinity | NegInfinity

fun ge_zero :: "number \<Rightarrow> bool" where
  "ge_zero NaN = False"
| "ge_zero (Finite r) = (0 \<le> r)"
| "ge_zero PosInfinity = True"
| "ge_zero NegInfinity = False"

text \<open>
  Modelled from the spec: the enum \<^verbatim>\<open>StatusCode\<close> of \<^verbatim>\<open>./status\<close>, which is
  not among the sources.  The spec names \<open>OK (0)\<close> and \<open>NOT_FOUND (5)\<close> and
  calls the codes the canonical gRPC ones; the remaining numbers are the canonical
  numbering.
\<close>

datatype StatusCode =
    OK | CANCELLED | UNKNOWN | INVALID_ARGUMENT | DEADLINE_EXCEEDED | NOT_FOUND
  | ALREADY_EXISTS | PERMISSION_DENIED | RESOURCE_EXHAUSTED | FAILED_PRECONDITION
  | ABORTED | OUT_OF_RANGE | UNIMPLEMENTED | INTERNAL | UNAVAILABLE | DATA_LOSS
  | UNAUTHENTICATED

fun code_of :: "StatusCode \<Rightarrow> nat" where
  "code_of OK = 0"
| "code_of CANCELLED = 1"
| "code_of UNKNOWN = 2"
| "code_of INVALID_ARGUMENT = 3"
| "code_of DEADLINE_EXCEEDED = 4"
| "code_of NOT_FOUND = 5"
| "code_of ALREADY_EXISTS = 6"
| "code_of PERMISSION_DENIED = 7"
| "code_of RESOURCE_EXHAUSTED = 8"
| "code_of FAILED_PRECONDITION = 9"
| "code_of ABORTED = 10"
| "code_of OUT_OF_RANGE = 11"
| "code_of UNIMPLEMENTED = 12"
| "code_of INTERNAL = 13"
| "code_of UNAVAILABLE = 14"
| "code_of DATA_LOSS = 15"
| "code_of UNAUTHENTICATED = 16"

definition status_number :: "StatusCode \<Rightarrow> number" where
  "status_number c = Finite (of_nat (code_of c))"

text \<open>
  Modelled from the spec: \<^verbatim>\<open>fromHttpStatus\<close> of \<^verbatim>\<open>./status\<close>, which is not
  among the sources.  The table is the one of the Status Mapper section; for 409
  the spec names both ALREADY_EXISTS and ABORTED, and ABORTED is taken here (no
  statement below depends on that entry).  Any status outside the table maps to
  UNKNOWN.
\<close>

definition fromHttpStatus :: "nat \<Rightarrow> StatusCode" where
  "fromHttpStatus s =
     (if s = 400 then INVALID_ARGUMENT
      else if s = 401 then UNAUTHENTICATED
      else if s = 403 then PERMISSION_DENIED
      else if s = 404 then NOT_FOUND
      else if s = 409 then ABORTED
      else if s = 412 then FAILED_PRECONDITION
      else if s = 429 then RESOURCE_EXHAUSTED
      else if s = 499 then CANCELLED
      else if s = 500 then UNKNOWN
      else if s = 501 then UNIMPLEMENTED
      else if s = 503 then UNAVAILABLE
      else if s = 504 then DEADLINE_EXCEEDED
      else UNKNOWN)"

text \<open>
  Modelled from the spec: the trailer and header names \<^verbatim>\<open>GRPC_STATUS\<close> and
  \<^verbatim>\<open>GRPC_MESSAGE\<close> of \<^verbatim>\<open>./utils\<close>.
\<close>

definition GRPC_STATUS :: string where
  "GRPC_STATUS = ''grpc-status''"

definition GRPC_MESSAGE :: string where
  "GRPC_MESSAGE = ''grpc-message''"

text \<open>
  Modelled from the spec: the type \<^verbatim>\<open>Chunk\<close> of \<^verbatim>\<open>./parser\<close>, the Frame of the
  data model, with its two variants.  Trailer fields are a map from name to
  value; a missing name reads as \<^verbatim>\<open>undefined\<close>.
\<close>

datatype Chunk =
    is_MESSAGE: Message (chunk_data: bytes)
  | is_TRAILERS: Trailers (trailers: "string \<rightharpoonup> string")

text \<open>
  The \<^verbatim>\<open>data\<close> member of an error is of type \<^verbatim>\<open>any\<close>.  The controller puts
  there the configured timeout (a number), a caught exception, or what the
  helpers \<^verbatim>\<open>bufToString\<close> and \<^verbatim>\<open>safeJSON\<close> return.
\<close>

datatype ('e, 'a) any_data = DNumber nat | DThrown 'e | DValue 'a

record ('e, 'a) error_body =
  message :: "string option"
  data :: "('e, 'a) any_data option"
  httpStatus :: "nat option"
  grpcCode :: "number option"

text \<open>
  \<^verbatim>\<open>GOutput\<close>: \<^verbatim>\<open>{ success: true, data }\<close> or \<^verbatim>\<open>{ success: false, error }\<close>.
  A member that the object literal leaves out, or sets to \<^verbatim>\<open>undefined\<close>, is \<open>None\<close>.
\<close>

datatype ('v, 'e, 'a) GOutput = is_Success: Success 'v | Failure "('e, 'a) error_body"

text \<open>
  What the listeners read of the \<^verbatim>\<open>XMLHttpRequest\<close> when an event fires.  The
  response is left abstract: only \<^verbatim>\<open>toInt8\<close> and \<^verbatim>\<open>bufToString\<close> look at it.
\<close>

record 'r XHR =
  timeout :: nat
  status :: nat
  response :: 'r
  getResponseHeader :: "string \<Rightarrow> string option"

section \<open>Sinks and the registry object\<close>

text \<open>
  The devtool reporter \<^verbatim>\<open>send\<close> and the methods of the optional \<^verbatim>\<open>logger\<close>
  are called for their effect only.  A call returns normally (\<open>None\<close>) or
  throws (\<open>Some e\<close>); which of the two may depend on what it is given.  The
  method path and the request value of the call are fixed for one call and are
  not listed among the arguments.
\<close>

datatype ('v, 'e, 'a) report =
    StreamRequest bytes
  | StreamResponse bytes
  | Unary "('v, 'e, 'a) GOutput"

datatype ('v, 'e, 'a) log_args =
    LogBytes bytes
  | LogOutcome "('v, 'e, 'a) GOutput"
  | LogReason 'e

record ('v, 'e, 'a) Logger =
  info :: "('v, 'e, 'a) log_args \<Rightarrow> 'e option"
  warn :: "('v, 'e, 'a) log_args \<Rightarrow> 'e option"
  error :: "('v, 'e, 'a) log_args \<Rightarrow> 'e option"

text \<open>
  An abort callback is the closure \<^verbatim>\<open>() => xhr.abort()\<close> of one call; it is
  identified by the call's request.
\<close>

datatype callback = AbortXHR nat

text \<open>
  The registry \<^verbatim>\<open>cancels\<close> is the plain object \<^verbatim>\<open>{}\<close>, so reading
  \<^verbatim>\<open>cancels[key]\<close> also finds what the object inherits.  A read gives
  \<^verbatim>\<open>undefined\<close>, a stored closure, an inherited function, some value that is
  not a function, or it throws (an inherited getter that throws).  An inherited
  function called as \<^verbatim>\<open>cancels[key]()\<close>, with the registry as \<^verbatim>\<open>this\<close> and no
  argument, returns, throws a \<^verbatim>\<open>TypeError\<close>, or (\<^verbatim>\<open>toLocaleString\<close>) calls
  \<^verbatim>\<open>this.toString()\<close>.  An assignment to a name that the object only inherits
  creates an own property, is refused with a \<^verbatim>\<open>TypeError\<close> (a read-only
  inherited property, in strict mode), or is swallowed by an inherited setter.
\<close>

datatype js_error = TypeError | RangeError

datatype builtin = Returns | Throws | CallsToString

datatype property = Undefined | Closure callback | Builtin builtin | NotFunction | GetterThrows

datatype assignment = CreatesOwn | AssignThrows | AssignIgnored

text \<open>
  The function-valued properties of the standard \<^verbatim>\<open>Object.prototype\<close>; all of
  them are writable.  \<^verbatim>\<open>__defineGetter__\<close> and \<^verbatim>\<open>__defineSetter__\<close> throw when
  called without a function argument.  The accessor \<^verbatim>\<open>__proto__\<close> is treated
  where the registry is read and written.
\<close>

definition object_prototype :: "string \<Rightarrow> property \<times> assignment" where
  "object_prototype k =
     (if k \<in> set [''__defineGetter__'', ''__defineSetter__''] then (Builtin Throws, CreatesOwn)
      else if k = ''toLocaleString'' then (Builtin CallsToString, CreatesOwn)
      else if k \<in> set [''constructor'', ''hasOwnProperty'', ''isPrototypeOf'',
                         ''propertyIsEnumerable'', ''toString'', ''valueOf'',
                         ''__lookupGetter__'', ''__lookupSetter__'']
        then (Builtin Returns, CreatesOwn)
      else (Undefined, CreatesOwn))"

text \<open>
  The imported helpers, the configuration and the runtime.  A helper that can
  throw returns a sum, \<open>Inl\<close> carrying the exception.  \<open>Decode\<close> stands for
  \<^verbatim>\<open>Decode(field.decode, _)\<close> of the field the call was issued for, and
  \<open>encode\<close> for masking, \<^verbatim>\<open>Encode(field.encode, _)\<close> and \<^verbatim>\<open>encodeRequest\<close>.
  \<open>transformRequest\<close> returns the replacement request, a falsy value (\<open>None\<close>)
  or rejects.  \<open>closure_chain\<close> is what the registry inherits, under a name
  other than \<^verbatim>\<open>__proto__\<close>, once its prototype is an abort closure, that is
  through the closure, \<^verbatim>\<open>Function.prototype\<close> and \<^verbatim>\<open>Object.prototype\<close>.
\<close>

record ('v, 'e, 'a, 'r, 'q) env =
  toInt8 :: "'r XHR \<Rightarrow> bytes option"
  bufToString :: "'r XHR \<Rightarrow> 'a"
  chunkParse :: "bytes \<Rightarrow> 'e + Chunk list"
  Decode :: "bytes \<Rightarrow> 'e + 'v"
  safeJSON :: "string \<Rightarrow> 'a"
  Number :: "string \<Rightarrow> number"
  debug :: bool
  devtool :: bool
  send :: "('v, 'e, 'a) report \<Rightarrow> 'e option"
  logger :: "('v, 'e, 'a) Logger option"
  transformRequest :: "('q \<Rightarrow> 'e + 'q option) option"
  encode :: "'q \<Rightarrow> 'e + bytes"
  closure_chain :: "string \<Rightarrow> property \<times> assignment"

section \<open>Cancellation state and the promise of a call\<close>

text \<open>
  \<open>cancels\<close> holds the own properties of the registry object and
  \<open>cancels_proto\<close> its prototype: \<open>None\<close> is \<^verbatim>\<open>Object.prototype\<close>, and
  \<open>Some f\<close> the closure that an assignment to \<^verbatim>\<open>cancels['__proto__']\<close> put
  there.  Invoking an abort callback asks the transport to abort its request,
  which the model records in \<open>abort_requests\<close> (oldest first); the transport
  answers with events of its own, delivered as separate steps.  \<open>sent\<close> lists
  the requests handed to \<^verbatim>\<open>xhr.send\<close> and \<open>unhandled\<close> the rejections
  that nothing handles.
\<close>

datatype Cancel = Key string | Handle nat

record ('v, 'e, 'a) state =
  cancels :: "string \<rightharpoonup> callback"
  cancels_proto :: "callback option"
  abort_slot :: "nat \<rightharpoonup> callback"
  abort_requests :: "nat list"
  promise :: "nat \<rightharpoonup> ('v, 'e, 'a) GOutput"
  sent :: "(nat \<times> bytes) list"
  unhandled :: "'e list"
  next_xhr :: nat
  next_handle :: nat

record call =
  cancel :: "Cancel option"
  xhr_id :: nat

definition invoke :: "callback \<Rightarrow> ('v, 'e, 'a) state \<Rightarrow> ('v, 'e, 'a) state" where
  "invoke f st = (case f of AbortXHR i \<Rightarrow> st\<lparr>abort_requests := abort_requests st @ [i]\<rparr>)"

text \<open>\<^verbatim>\<open>grpcCancel()\<close>: a new handle whose \<^verbatim>\<open>abort\<close> member is not set.\<close>

definition grpcCancel :: "('v, 'e, 'a) state \<Rightarrow> nat \<times> ('v, 'e, 'a) state" where
  "grpcCancel st =
     (next_handle st,
      st\<lparr>abort_slot := (abort_slot st)(next_handle st := None),
         next_handle := Suc (next_handle st)\<rparr>)"

text \<open>Calling the handle: \<^verbatim>\<open>CancelFn.abort?.(); CancelFn.abort = undefined\<close>.\<close>

definition CancelFn :: "nat \<Rightarrow> ('v, 'e, 'a) state \<Rightarrow> ('v, 'e, 'a) state" where
  "CancelFn h st =
     (let st1 = (case abort_slot st h of Some f \<Rightarrow> invoke f st | None \<Rightarrow> st)
      in st1\<lparr>abort_slot := (abort_slot st1)(h := None)\<rparr>)"

text \<open>What the registry inherits under a name other than \<^verbatim>\<open>__proto__\<close>.\<close>

definition inherited ::
  "('v, 'e, 'a, 'r, 'q) env \<Rightarrow> ('v, 'e, 'a) state \<Rightarrow> string \<Rightarrow> property \<times> assignment" where
  "inherited env st k =
     (case cancels_proto st of None \<Rightarrow> object_prototype k | Some f \<Rightarrow> closure_chain env k)"

text \<open>
  Reading \<^verbatim>\<open>cancels[k]\<close>: an own property first; \<^verbatim>\<open>__proto__\<close> is the
  inherited accessor that returns the prototype (the object
  \<^verbatim>\<open>Object.prototype\<close>, or the closure put there).
\<close>

definition cancels_get ::
  "('v, 'e, 'a, 'r, 'q) env \<Rightarrow> ('v, 'e, 'a) state \<Rightarrow> string \<Rightarrow> property" where
  "cancels_get env st k =
     (case cancels st k of
        Some f \<Rightarrow> Closure f
      | None \<Rightarrow>
          if k = ''__proto__'' then
            (case cancels_proto st of None \<Rightarrow> NotFunction | Some f \<Rightarrow> Closure f)
          else fst (inherited env st k))"


text \<open>
  \<^verbatim>\<open>cancels[k] = f\<close>: an own property is overwritten; \<^verbatim>\<open>__proto__\<close> goes to
  the inherited setter, which makes \<open>f\<close> the prototype and creates no own
  property; any other name is created unless an inherited property refuses or
  swallows the assignment.
\<close>

definition cancels_set ::
  "('v, 'e, 'a, 'r, 'q) env \<Rightarrow> string \<Rightarrow> callback \<Rightarrow> ('v, 'e, 'a) state \<Rightarrow>
   js_error option \<times> ('v, 'e, 'a) state" where
  "cancels_set env k f st =
     (case cancels st k of
        Some _ \<Rightarrow> (None, st\<lparr>cancels := (cancels st)(k \<mapsto> f)\<rparr>)
      | None \<Rightarrow>
          if k = ''__proto__'' then (None, st\<lparr>cancels_proto := Some f\<rparr>)
          else
            (case inherited env st k of
               (Undefined, _) \<Rightarrow> (None, st\<lparr>cancels := (cancels st)(k \<mapsto> f)\<rparr>)
             | (_, CreatesOwn) \<Rightarrow> (None, st\<lparr>cancels := (cancels st)(k \<mapsto> f)\<rparr>)
             | (_, AssignThrows) \<Rightarrow> (Some TypeError, st)
             | (_, AssignIgnored) \<Rightarrow> (None, st)))"

text \<open>\<^verbatim>\<open>delete cancels[k]\<close> removes an own property and nothing else.\<close>

definition cancels_delete :: "string \<Rightarrow> ('v, 'e, 'a) state \<Rightarrow> ('v, 'e, 'a) state" where
  "cancels_delete k st = st\<lparr>cancels := (cancels st)(k := None)\<rparr>"

text \<open>
  \<^verbatim>\<open>this.toString()\<close> as the inherited \<^verbatim>\<open>toLocaleString\<close> calls it: what
  \<^verbatim>\<open>cancels['toString']\<close> reads is called, a stored closure included.
\<close>

definition call_toString ::
  "('v, 'e, 'a, 'r, 'q) env \<Rightarrow> ('v, 'e, 'a) state \<Rightarrow> js_error option \<times> ('v, 'e, 'a) state" where
  "call_toString env st =
     (case cancels_get env st ''toString'' of
        Closure f \<Rightarrow> (None, invoke f st)
      | Builtin Returns \<Rightarrow> (None, st)
      | Builtin Throws \<Rightarrow> (Some TypeError, st)
      | Builtin CallsToString \<Rightarrow> (Some RangeError, st)
      | Undefined \<Rightarrow> (Some TypeError, st)
      | NotFunction \<Rightarrow> (Some TypeError, st)
      | GetterThrows \<Rightarrow> (Some TypeError, st))"

text \<open>
  The head of the per-call closure:
  \<^verbatim>\<open>if (isString(cancel) && isFunction(cancels[cancel])) { cancels[cancel](); delete cancels[cancel]; }\<close>.
  \<open>Some err\<close>: the closure throws \<open>err\<close> to its caller and does nothing more.
\<close>

definition cancel_previous ::
  "('v, 'e, 'a, 'r, 'q) env \<Rightarrow> Cancel option \<Rightarrow> ('v, 'e, 'a) state \<Rightarrow>
   js_error option \<times> ('v, 'e, 'a) state" where
  "cancel_previous env c st =
     (case c of
        Some (Key k) \<Rightarrow>
          (case cancels_get env st k of
             Closure f \<Rightarrow> (None, cancels_delete k (invoke f st))
           | Builtin Returns \<Rightarrow> (None, cancels_delete k st)
           | Builtin Throws \<Rightarrow> (Some TypeError, st)
           | Builtin CallsToString \<Rightarrow>
               (case call_toString env st of
                  (None, st1) \<Rightarrow> (None, cancels_delete k st1)
                | (Some err, st1) \<Rightarrow> (Some err, st1))
           | GetterThrows \<Rightarrow> (Some TypeError, st)
           | Undefined \<Rightarrow> (None, st)
           | NotFunction \<Rightarrow> (None, st))
      | _ \<Rightarrow> (None, st))"

text \<open>
  \<^verbatim>\<open>new XMLHttpRequest()\<close>, the storing of \<^verbatim>\<open>abortXHR\<close> under the key or in
  the handle, and the pending promise of the call.  A refused assignment throws
  before the promise exists.
\<close>

definition install_abort ::
  "('v, 'e, 'a, 'r, 'q) env \<Rightarrow> Cancel option \<Rightarrow> ('v, 'e, 'a) state \<Rightarrow>
   (js_error + call) \<times> ('v, 'e, 'a) state" where
  "install_abort env c st =
     (let x = next_xhr st;
          st1 = st\<lparr>next_xhr := Suc x\<rparr>;
          (err, st2) =
            (case c of
               None \<Rightarrow> (None, st1)
             | Some (Key k) \<Rightarrow> cancels_set env k (AbortXHR x) st1
             | Some (Handle h) \<Rightarrow>
                 (None, st1\<lparr>abort_slot := (abort_slot st1)(h \<mapsto> AbortXHR x)\<rparr>))
      in case err of
           Some e \<Rightarrow> (Inl e, st2)
         | None \<Rightarrow> (Inr \<lparr>cancel = c, xhr_id = x\<rparr>, st2\<lparr>promise := (promise st2)(x := None)\<rparr>))"

definition grpcHTTP_call ::
  "('v, 'e, 'a, 'r, 'q) env \<Rightarrow> Cancel option \<Rightarrow> ('v, 'e, 'a) state \<Rightarrow>
   (js_error + call) \<times> ('v, 'e, 'a) state" where
  "grpcHTTP_call env c st =
     (case cancel_previous env c st of
        (Some err, st1) \<Rightarrow> (Inl err, st1)
      | (None, st1) \<Rightarrow> install_abort env c st1)"

text \<open>
  \<open>tmCancel\<close>: \<^verbatim>\<open>delete cancels[cancel]\<close> for a string key,
  \<^verbatim>\<open>cancel.abort = undefined\<close> for a handle.
\<close>

definition tmCancel :: "call \<Rightarrow> ('v, 'e, 'a) state \<Rightarrow> ('v, 'e, 'a) state" where
  "tmCancel c st =
     (case cancel c of
        None \<Rightarrow> st
      | Some (Key k) \<Rightarrow> cancels_delete k st
      | Some (Handle h) \<Rightarrow> st\<lparr>abort_slot := (abort_slot st)(h := None)\<rparr>)"

text \<open>
  \<^verbatim>\<open>callback\<close> is the resolving function of \<^verbatim>\<open>new Promise\<close>: it settles a
  pending promise and does nothing to a settled one.
\<close>

definition callback ::
  "nat \<Rightarrow> ('v, 'e, 'a) GOutput \<Rightarrow> ('v, 'e, 'a) state \<Rightarrow> ('v, 'e, 'a) state" where
  "callback i out st =
     (case promise st i of
        None \<Rightarrow> st\<lparr>promise := (promise st)(i \<mapsto> out)\<rparr>
      | Some _ \<Rightarrow> st)"

section \<open>The listeners\<close>




text \<open>
  \<^verbatim>\<open>logger?.warn(method, bytes)\<close>: no call without a logger.
\<close>

definition logger_warn :: "('v, 'e, 'a, 'r, 'q) env \<Rightarrow> bytes \<Rightarrow> 'e option" where
  "logger_warn env b = (case logger env of None \<Rightarrow> None | Some lg \<Rightarrow> warn lg (LogBytes b))"

text \<open>
  The block \<^verbatim>\<open>if (debug) { send({..., response}); logger?.warn(method, byteSource); }\<close>
  at the head of the \<^verbatim>\<open>try\<close> of the MESSAGE branch: \<open>Some e\<close> when one of the
  two calls throws \<open>e\<close>.
\<close>

definition debug_response :: "('v, 'e, 'a, 'r, 'q) env \<Rightarrow> bytes \<Rightarrow> 'e option" where
  "debug_response env byteSource =
     (if debug env then
        (case send env (StreamResponse byteSource) of
           Some e \<Rightarrow> Some e
         | None \<Rightarrow> logger_warn env byteSource)
      else None)"

text \<open>
  The loop over the parsed chunks.  \<open>None\<close>: the loop ends without a call of
  \<^verbatim>\<open>callback\<close>.  In the MESSAGE branch the \<^verbatim>\<open>catch\<close> receives whatever the
  \<^verbatim>\<open>try\<close> block throws: the debug block runs first, then the decoder.
\<close>

fun scan_chunks ::
  "('v, 'e, 'a, 'r, 'q) env \<Rightarrow> 'r XHR \<Rightarrow> bytes \<Rightarrow> Chunk list \<Rightarrow> ('v, 'e, 'a) GOutput option" where
  "scan_chunks env x byteSource [] = None"
| "scan_chunks env x byteSource (d # ds) =
     (if is_MESSAGE d then
        (case (case debug_response env byteSource of
                 Some e \<Rightarrow> Inl e
               | None \<Rightarrow> Decode env (chunk_data d)) of
           Inr v \<Rightarrow> Some (Success v)
         | Inl e \<Rightarrow>
             Some (Failure \<lparr>message = Some ''Decode error'', data = Some (DThrown e),
                            httpStatus = Some (status x), grpcCode = None\<rparr>))
      else if is_TRAILERS d then
        (let msg = (case trailers d GRPC_MESSAGE of Some m \<Rightarrow> m | None \<Rightarrow> '''');
             code = (case trailers d GRPC_STATUS of
                       None \<Rightarrow> status_number OK
                     | Some s \<Rightarrow>
                         if ge_zero (Number env s) then Number env s
                         else status_number (fromHttpStatus (status x)))
         in Some (Failure \<lparr>message = Some msg, data = Some (DValue (safeJSON env msg)),
                           httpStatus = Some (status x), grpcCode = Some code\<rparr>))
      else scan_chunks env x byteSource ds)"

text \<open>
  The fallback for an empty chunk list, read from the response headers.
  \<^verbatim>\<open>Number(status) ?? 0\<close> is \<^verbatim>\<open>Number(status)\<close>: a number is never nullish.
\<close>

definition header_outcome ::
  "('v, 'e, 'a, 'r, 'q) env \<Rightarrow> 'r XHR \<Rightarrow> ('v, 'e, 'a) GOutput" where
  "header_outcome env x =
     (let st = getResponseHeader x GRPC_STATUS;
          msg = (case st of
                   Some _ \<Rightarrow> (case getResponseHeader x GRPC_MESSAGE of Some m \<Rightarrow> m | None \<Rightarrow> '''')
                 | None \<Rightarrow> ''Failed to parse GRPC status'');
          code = (case st of Some s \<Rightarrow> Some (Number env s) | None \<Rightarrow> None)
      in Failure \<lparr>message = Some msg, data = Some (DValue (safeJSON env msg)),
                  httpStatus = Some (status x), grpcCode = code\<rparr>)"

definition onready_outcome ::
  "('v, 'e, 'a, 'r, 'q) env \<Rightarrow> 'r XHR \<Rightarrow> ('v, 'e, 'a) GOutput option" where
  "onready_outcome env x =
     (if status x < 200 \<or> status x \<ge> 300 then
        Some (Failure \<lparr>message = Some ''XHR wrong status'',
                       data = Some (DValue (bufToString env x)),
                       httpStatus = Some (status x),
                       grpcCode = Some (status_number (fromHttpStatus (status x)))\<rparr>)
      else
        (case toInt8 env x of
           None \<Rightarrow>
             Some (Failure \<lparr>message = Some ''GRPC no bytes'', data = None,
                            httpStatus = None, grpcCode = None\<rparr>)
         | Some byteSource \<Rightarrow>
             (case chunkParse env byteSource of
                Inl err \<Rightarrow>
                  Some (Failure \<lparr>message = Some ''GRPC parsing error'',
                                 data = Some (DThrown err),
                                 httpStatus = None, grpcCode = None\<rparr>)
              | Inr chunks \<Rightarrow>
                  if length chunks = 0 then Some (header_outcome env x)
                  else scan_chunks env x byteSource chunks)))"





definition onready ::
  "('v, 'e, 'a, 'r, 'q) env \<Rightarrow> call \<Rightarrow> 'r XHR \<Rightarrow> ('v, 'e, 'a) state \<Rightarrow> ('v, 'e, 'a) state" where
  "onready env c x st =
     (let st1 = tmCancel c st
      in case onready_outcome env x of
           Some out \<Rightarrow> callback (xhr_id c) out st1
         | None \<Rightarrow> st1)"




section \<open>The request side\<close>

text \<open>
  The tail of the promise executor, an \<^verbatim>\<open>async\<close> function: the optional
  \<^verbatim>\<open>transformRequest\<close> (a falsy result keeps the values), encoding, the debug
  block and \<^verbatim>\<open>xhr.send\<close>.  \<open>Inr request\<close>: the bytes handed to
  \<^verbatim>\<open>xhr.send\<close>.  \<open>Inl e\<close>: a step throws or rejects with \<open>e\<close>, before anything
  is sent.
\<close>

definition request_side :: "('v, 'e, 'a, 'r, 'q) env \<Rightarrow> 'q \<Rightarrow> 'e + bytes" where
  "request_side env values =
     (case (case transformRequest env of
              None \<Rightarrow> Inr values
            | Some f \<Rightarrow>
                (case f values of
                   Inl e \<Rightarrow> Inl e
                 | Inr None \<Rightarrow> Inr values
                 | Inr (Some d) \<Rightarrow> Inr d)) of
        Inl e \<Rightarrow> Inl e
      | Inr sendData \<Rightarrow>
          (case encode env sendData of
             Inl e \<Rightarrow> Inl e
           | Inr request \<Rightarrow>
               (case (if debug env then
                        (case send env (StreamRequest request) of
                           Some e \<Rightarrow> Some e
                         | None \<Rightarrow> logger_warn env request)
                      else None) of
                  Some e \<Rightarrow> Inl e
                | None \<Rightarrow> Inr request)))"

text \<open>
  \<^verbatim>\<open>new Promise\<close> ignores what its executor returns, so a rejection of the
  \<^verbatim>\<open>async\<close> executor is handled by nothing: the promise of the call is not
  touched and, as nothing was sent, the transport has no event to fire.
\<close>

definition executor ::
  "('v, 'e, 'a, 'r, 'q) env \<Rightarrow> call \<Rightarrow> 'q \<Rightarrow> ('v, 'e, 'a) state \<Rightarrow> ('v, 'e, 'a) state" where
  "executor env c values st =
     (case request_side env values of
        Inr request \<Rightarrow> st\<lparr>sent := sent st @ [(xhr_id c, request)]\<rparr>
      | Inl e \<Rightarrow> st\<lparr>unhandled := unhandled st @ [e]\<rparr>)"

section \<open>The promise chain behind the call\<close>

text \<open>
  A settled promise is a sum: \<open>Inl\<close> rejected with a reason, \<open>Inr\<close> fulfilled.
  \<open>then_p\<close> is \<^verbatim>\<open>.then(f)\<close> and \<open>catch_p\<close> is \<^verbatim>\<open>.catch(h)\<close>; a handler that throws,
  or returns a promise that rejects, returns \<open>Inl\<close>.
\<close>

definition then_p :: "('x \<Rightarrow> 'e + 'y) \<Rightarrow> 'e + 'x \<Rightarrow> 'e + 'y" where
  "then_p f p = (case p of Inl e \<Rightarrow> Inl e | Inr v \<Rightarrow> f v)"

definition catch_p :: "('e \<Rightarrow> 'e + 'x) \<Rightarrow> 'e + 'x \<Rightarrow> 'e + 'x" where
  "catch_p h p = (case p of Inl e \<Rightarrow> h e | Inr v \<Rightarrow> Inr v)"

text \<open>
  The first \<^verbatim>\<open>then\<close>: with \<^verbatim>\<open>devtool\<close> on, \<^verbatim>\<open>send\<close> and then
  \<^verbatim>\<open>logger?.[data.success ? 'info' : 'error'](method, sendData, data)\<close>; the outcome
  is handed on when both return.
\<close>

definition devtool_step ::
  "('v, 'e, 'a, 'r, 'q) env \<Rightarrow> ('v, 'e, 'a) GOutput \<Rightarrow> 'e + ('v, 'e, 'a) GOutput" where
  "devtool_step env d =
     (if devtool env then
        (case send env (Unary d) of
           Some e \<Rightarrow> Inl e
         | None \<Rightarrow>
             (case logger env of
                None \<Rightarrow> Inr d
              | Some lg \<Rightarrow>
                  (case (if is_Success d then info lg else error lg) (LogOutcome d) of
                     Some e \<Rightarrow> Inl e
                   | None \<Rightarrow> Inr d)))
      else Inr d)"

text \<open>
  The handler of the final \<^verbatim>\<open>catch\<close>: \<^verbatim>\<open>logger?.error(method, data)\<close>, then the
  failure that carries the reason as \<^verbatim>\<open>data\<close>.
\<close>

definition logger_error :: "('v, 'e, 'a, 'r, 'q) env \<Rightarrow> 'e \<Rightarrow> 'e option" where
  "logger_error env reason =
     (case logger env of None \<Rightarrow> None | Some lg \<Rightarrow> error lg (LogReason reason))"

definition on_rejected ::
  "('v, 'e, 'a, 'r, 'q) env \<Rightarrow> 'e \<Rightarrow> 'e + ('v, 'e, 'a) GOutput" where
  "on_rejected env reason =
     (case logger_error env reason of
        Some e \<Rightarrow> Inl e
      | None \<Rightarrow>
          Inr (Failure \<lparr>message = None, data = Some (DThrown reason),
                        httpStatus = None, grpcCode = None\<rparr>))"

text \<open>
  The chain applied to the outcome \<^verbatim>\<open>callback\<close> settled the promise with: the
  devtool step, the optional \<^verbatim>\<open>transformResponse\<close>, the final \<^verbatim>\<open>catch\<close>.
\<close>

definition promise_chain ::
  "('v, 'e, 'a, 'r, 'q) env \<Rightarrow>
   (('v, 'e, 'a) GOutput \<Rightarrow> 'e + ('v, 'e, 'a) GOutput) option \<Rightarrow>
   ('v, 'e, 'a) GOutput \<Rightarrow> 'e + ('v, 'e, 'a) GOutput" where
  "promise_chain env transformResponse out =
     catch_p (on_rejected env)
       (then_p
          (\<lambda>d. case transformResponse of Some f \<Rightarrow> f d | None \<Rightarrow> Inr d)
          (then_p (devtool_step env) (Inr out)))"


section \<open>Concrete instances\<close>

text \<open>
  A client that has issued no call yet (\<^verbatim>\<open>const cancels = {}\<close>), and simple
  instances of the parameters at which the theorems below are evaluated: a
  parser that returns a given chunk list, a decoder that returns the payload, a
  \<open>Number\<close> that reads the two numerals the examples use, no logger and
  \<^verbatim>\<open>debug\<close> and \<^verbatim>\<open>devtool\<close> off.
\<close>

definition init_state :: "('v, 'e, 'a) state" where
  "init_state =
     \<lparr>cancels = Map.empty, cancels_proto = None, abort_slot = Map.empty,
      abort_requests = [], promise = Map.empty, sent = [], unhandled = [],
      next_xhr = 0, next_handle = 0\<rparr>"

definition example_Number :: "string \<Rightarrow> number" where
  "example_Number s = (if s = ''0'' then Finite 0 else if s = ''3'' then Finite 3 else NaN)"

text \<open>
  What ECMAScript lets the registry inherit once its prototype is an arrow
  function: the closure's own read-only \<^verbatim>\<open>length\<close> and \<^verbatim>\<open>name\<close>, the
  methods of \<^verbatim>\<open>Function.prototype\<close> (which throw when \<^verbatim>\<open>this\<close> is not a
  function, \<^verbatim>\<open>constructor\<close> apart), its throwing accessors \<^verbatim>\<open>caller\<close> and
  \<^verbatim>\<open>arguments\<close>, and then \<^verbatim>\<open>Object.prototype\<close>.
\<close>

definition es_closure_chain :: "string \<Rightarrow> property \<times> assignment" where
  "es_closure_chain k =
     (if k \<in> set [''length'', ''name''] then (NotFunction, AssignThrows)
      else if k \<in> set [''caller'', ''arguments''] then (GetterThrows, AssignThrows)
      else if k \<in> set [''apply'', ''bind'', ''call'', ''toString''] then (Builtin Throws, CreatesOwn)
      else object_prototype k)"

definition example_env ::
  "Chunk list \<Rightarrow> (bytes, string, string, bytes option, bytes) env" where
  "example_env chunks =
     \<lparr>toInt8 = response, bufToString = (\<lambda>x. ''''), chunkParse = (\<lambda>b. Inr chunks),
      Decode = (\<lambda>b. Inr b), safeJSON = (\<lambda>s. s), Number = example_Number,
      debug = False, devtool = False, send = (\<lambda>r. None), logger = None,
      transformRequest = None, encode = (\<lambda>q. Inr q), closure_chain = es_closure_chain\<rparr>"

definition example_xhr ::
  "nat \<Rightarrow> bytes option \<Rightarrow> (string \<Rightarrow> string option) \<Rightarrow> bytes option XHR" where
  "example_xhr s r h = \<lparr>timeout = 0, status = s, response = r, getResponseHeader = h\<rparr>"

definition example_call :: "Cancel option \<Rightarrow> call" where
  "example_call c = \<lparr>cancel = c, xhr_id = 0\<rparr>"

text \<open>A logger whose \<^verbatim>\<open>warn\<close> and \<^verbatim>\<open>error\<close> throw, and one that returns.\<close>

definition failing_logger :: "(bytes, string, string) Logger" where
  "failing_logger =
     \<lparr>info = (\<lambda>a. None), warn = (\<lambda>a. Some ''logger failed''),
      error = (\<lambda>a. Some ''logger failed'')\<rparr>"

definition quiet_logger :: "(bytes, string, string) Logger" where
  "quiet_logger = \<lparr>info = (\<lambda>a. None), warn = (\<lambda>a. None), error = (\<lambda>a. None)\<rparr>"

text \<open>The example client with \<^verbatim>\<open>debug\<close> on and a logger.\<close>

definition debug_env ::
  "Chunk list \<Rightarrow> (bytes, string, string) Logger \<Rightarrow>
   (bytes, string, string, bytes option, bytes) env" where
  "debug_env chunks lg = (example_env chunks)\<lparr>debug := True, logger := Some lg\<rparr>"

text \<open>
  The client after one call without \<^verbatim>\<open>cancel\<close>, after one call under the key
  \<open>k\<close>, after one call with a fresh handle, and after one call under the key
  \<^verbatim>\<open>__proto__\<close>.
\<close>

definition plain_state :: "(bytes, string, string) state" where
  "plain_state = snd (grpcHTTP_call (example_env []) None init_state)"


definition handle_state :: "(bytes, string, string) state" where
  "handle_state =
     snd (grpcHTTP_call (example_env []) (Some (Handle 0)) (snd (grpcCancel init_state)))"



section \<open>Basic facts\<close>

lemma promise_tmCancel: "promise (tmCancel c st) = promise st"
  by (simp add: tmCancel_def cancels_delete_def split: option.splits Cancel.splits)

lemma promise_callback:
  "promise (callback i out st) j =
     (if j = i then (case promise st i of None \<Rightarrow> Some out | Some old \<Rightarrow> Some old)
      else promise st j)"
  by (simp add: callback_def split: option.splits)

lemma promise_onready:
  "promise (onready env c x st) (xhr_id c) =
     (case promise st (xhr_id c) of Some old \<Rightarrow> Some old | None \<Rightarrow> onready_outcome env x)"
  by (simp add: onready_def Let_def promise_callback promise_tmCancel split: option.splits)












lemma plain_state_eq:
  "plain_state =
     \<lparr>cancels = Map.empty, cancels_proto = None, abort_slot = Map.empty,
      abort_requests = [], promise = Map.empty, sent = [], unhandled = [],
      next_xhr = 1, next_handle = 0\<rparr>"
  by (simp add: plain_state_def grpcHTTP_call_def install_abort_def cancel_previous_def
      init_state_def Let_def)


lemma handle_state_eq:
  "handle_state =
     \<lparr>cancels = Map.empty, cancels_proto = None, abort_slot = [0 \<mapsto> AbortXHR 0],
      abort_requests = [], promise = Map.empty, sent = [], unhandled = [],
      next_xhr = 1, next_handle = 1\<rparr>"
  by (simp add: handle_state_def grpcHTTP_call_def install_abort_def cancel_previous_def
      grpcCancel_def init_state_def Let_def)














section \<open>Exactly one outcome per call\<close>



section \<open>The load listener\<close>

text \<open>
  C6.  A load event whose HTTP status is below 200 or at least 300 resolves a
  pending call to the failure \<open>XHR wrong status\<close> with the transport status as
  \<open>httpStatus\<close> and \<open>fromHttpStatus\<close> of it as \<open>grpcCode\<close>; for 404 that is
  NOT_FOUND, the number 5.  The outcome is the same whatever \<open>toInt8\<close> and
  \<open>chunkParse\<close> would do (also when they would throw): the body is not parsed.
\<close>

theorem wrong_status_failure:
  assumes "status x < 200 \<or> 300 \<le> status x" and "promise st (xhr_id c) = None"
  shows "promise (onready env c x st) (xhr_id c) =
           Some (Failure \<lparr>message = Some ''XHR wrong status'',
                          data = Some (DValue (bufToString env x)),
                          httpStatus = Some (status x),
                          grpcCode = Some (status_number (fromHttpStatus (status x)))\<rparr>)
         \<and> (status x = 404 \<longrightarrow>
              fromHttpStatus (status x) = NOT_FOUND \<and>
              status_number (fromHttpStatus (status x)) = Finite 5)
         \<and> promise (onready (env\<lparr>toInt8 := t, chunkParse := p\<rparr>) c x st) (xhr_id c) =
             promise (onready env c x st) (xhr_id c)"
  using assms
  by (auto simp add: promise_onready onready_outcome_def fromHttpStatus_def status_number_def)

theorem wrong_status_failure_witness:
  "promise (onready (example_env []) (example_call None) (example_xhr 404 None Map.empty)
      init_state) 0 =
     Some (Failure \<lparr>message = Some ''XHR wrong status'', data = Some (DValue ''''),
                    httpStatus = Some 404, grpcCode = Some (Finite 5)\<rparr>)"
proof -
  have h1: "status (example_xhr 404 None Map.empty) < 200
              \<or> 300 \<le> status (example_xhr 404 None Map.empty)"
    by (simp add: example_xhr_def)
  have h2: "promise (init_state :: (bytes, string, string) state) (xhr_id (example_call None)) = None"
    by (simp add: init_state_def)
  from wrong_status_failure [OF h1 h2, THEN conjunct1, of "example_env []"]
  show ?thesis
    by (simp add: example_env_def example_call_def example_xhr_def fromHttpStatus_def
        status_number_def)
qed

text \<open>
  C9.  A load event with a 2xx status for which \<open>toInt8\<close> yields no bytes
  resolves a pending call to the failure \<open>GRPC no bytes\<close>, which has no other
  member; the outcome is the same whatever \<open>chunkParse\<close> would do.
\<close>

theorem no_bytes_failure:
  assumes "200 \<le> status x" and "status x < 300" and "toInt8 env x = None"
    and "promise st (xhr_id c) = None"
  shows "promise (onready env c x st) (xhr_id c) =
           Some (Failure \<lparr>message = Some ''GRPC no bytes'', data = None,
                          httpStatus = None, grpcCode = None\<rparr>)
         \<and> promise (onready (env\<lparr>chunkParse := p\<rparr>) c x st) (xhr_id c) =
             promise (onready env c x st) (xhr_id c)"
  using assms by (simp add: promise_onready onready_outcome_def)

theorem no_bytes_failure_witness:
  "promise (onready (example_env [Message [1]]) (example_call None)
      (example_xhr 200 None Map.empty) init_state) 0 =
     Some (Failure \<lparr>message = Some ''GRPC no bytes'', data = None,
                    httpStatus = None, grpcCode = None\<rparr>)"
proof -
  have h1: "200 \<le> status (example_xhr 200 None Map.empty)"
    and h2: "status (example_xhr 200 None Map.empty) < 300"
    and h3: "toInt8 (example_env [Message [1]]) (example_xhr 200 None Map.empty) = None"
    by (simp_all add: example_xhr_def example_env_def)
  have h4: "promise (init_state :: (bytes, string, string) state) (xhr_id (example_call None)) = None"
    by (simp add: init_state_def)
  from no_bytes_failure [OF h1 h2 h3 h4]
  show ?thesis
    by (simp add: example_call_def)
qed

text \<open>
  C2.  A load event with a 2xx status whose chunk list has a Trailers chunk
  before any Message chunk (with the two kinds of chunk, a list that starts with
  a Trailers chunk) resolves a pending call to a failure.  Its message is the
  \<open>grpc-message\<close> trailer, or the empty string without one.  Its \<open>grpcCode\<close> is
  OK, the number 0, when there is no \<open>grpc-status\<close> trailer; it is
  \<open>Number\<close> of that trailer when this is at least 0; and it is
  \<open>fromHttpStatus\<close> of the transport status otherwise, in particular when the
  trailer does not read as a number.
\<close>

theorem trailers_first_failure:
  assumes "200 \<le> status x" and "status x < 300" and "toInt8 env x = Some b"
    and "chunkParse env b = Inr (Trailers t # rest)"
    and "promise st (xhr_id c) = None"
  shows "\<exists>msg code.
           promise (onready env c x st) (xhr_id c) =
             Some (Failure \<lparr>message = Some msg, data = Some (DValue (safeJSON env msg)),
                            httpStatus = Some (status x), grpcCode = Some code\<rparr>)
         \<and> msg = (case t GRPC_MESSAGE of Some m \<Rightarrow> m | None \<Rightarrow> '''')
         \<and> (t GRPC_STATUS = None \<longrightarrow> code = status_number OK \<and> code = Finite 0)
         \<and> (\<forall>s. t GRPC_STATUS = Some s \<longrightarrow> ge_zero (Number env s) \<longrightarrow> code = Number env s)
         \<and> (\<forall>s. t GRPC_STATUS = Some s \<longrightarrow> \<not> ge_zero (Number env s) \<longrightarrow>
                code = status_number (fromHttpStatus (status x)))
         \<and> (\<forall>s. t GRPC_STATUS = Some s \<longrightarrow> Number env s = NaN \<longrightarrow>
                code = status_number (fromHttpStatus (status x)))"
  using assms
  by (cases "t GRPC_STATUS")
     (auto simp add: promise_onready onready_outcome_def Let_def status_number_def)

theorem trailers_first_failure_witness:
  "promise
     (onready
        (example_env [Trailers (map_of [(''grpc-status'', ''3''), (''grpc-message'', ''bad arg'')])])
        (example_call None) (example_xhr 200 (Some [128, 0, 0, 0, 0]) Map.empty) init_state) 0 =
   Some (Failure \<lparr>message = Some ''bad arg'', data = Some (DValue ''bad arg''),
                  httpStatus = Some 200, grpcCode = Some (Finite 3)\<rparr>)
   \<and> promise
     (onready (example_env [Trailers Map.empty, Message [7]])
        (example_call None) (example_xhr 200 (Some [128, 0, 0, 0, 0]) Map.empty) init_state) 0 =
   Some (Failure \<lparr>message = Some '''', data = Some (DValue ''''),
                  httpStatus = Some 200, grpcCode = Some (Finite 0)\<rparr>)
   \<and> promise
     (onready (example_env [Trailers (map_of [(''grpc-status'', ''abc'')])])
        (example_call None) (example_xhr 200 (Some [128, 0, 0, 0, 0]) Map.empty) init_state) 0 =
   Some (Failure \<lparr>message = Some '''', data = Some (DValue ''''),
                  httpStatus = Some 200, grpcCode = Some (Finite 2)\<rparr>)"
proof -
  let ?t = "map_of [(''grpc-status'', ''3''), (''grpc-message'', ''bad arg'')]"
  let ?u = "map_of [(''grpc-status'', ''abc'')]"
  let ?x = "example_xhr 200 (Some [128, 0, 0, 0, 0]) Map.empty"
  have h1: "200 \<le> status ?x" and h2: "status ?x < 300"
    and t3: "toInt8 (example_env [Trailers ?t]) ?x = Some [128, 0, 0, 0, 0]"
    and t4: "chunkParse (example_env [Trailers ?t]) [128, 0, 0, 0, 0] = Inr (Trailers ?t # [])"
    and e3: "toInt8 (example_env [Trailers Map.empty, Message [7]]) ?x = Some [128, 0, 0, 0, 0]"
    and e4: "chunkParse (example_env [Trailers Map.empty, Message [7]]) [128, 0, 0, 0, 0] =
               Inr (Trailers Map.empty # [Message [7]])"
    and u3: "toInt8 (example_env [Trailers ?u]) ?x = Some [128, 0, 0, 0, 0]"
    and u4: "chunkParse (example_env [Trailers ?u]) [128, 0, 0, 0, 0] = Inr (Trailers ?u # [])"
    by (simp_all add: example_xhr_def example_env_def)
  have h5: "promise (init_state :: (bytes, string, string) state) (xhr_id (example_call None)) = None"
    by (simp add: init_state_def)
  from trailers_first_failure [OF h1 h2 t3 t4 h5] trailers_first_failure [OF h1 h2 e3 e4 h5]
    trailers_first_failure [OF h1 h2 u3 u4 h5]
  show ?thesis
    by (auto simp add: example_call_def example_xhr_def example_env_def example_Number_def
        GRPC_STATUS_def GRPC_MESSAGE_def status_number_def fromHttpStatus_def)
qed

text \<open>
  C3.  A load event with a 2xx status, bytes to parse and a parse that returns
  no chunk resolves a pending call from the response headers: with a
  \<open>grpc-status\<close> header, the message is the \<open>grpc-message\<close> header (the empty
  string without one) and \<open>grpcCode\<close> is \<open>Number\<close> of the status header; with
  none, the message is \<open>Failed to parse GRPC status\<close> and \<open>grpcCode\<close> is
  undefined.  When the parse returns chunks, the outcome is that of the loop over
  them, whatever the headers are.
\<close>

theorem zero_frames_fallback:
  assumes "200 \<le> status x" and "status x < 300" and "toInt8 env x = Some b"
    and "chunkParse env b = Inr chunks"
    and "promise st (xhr_id c) = None"
  shows "(chunks = [] \<longrightarrow>
            (\<exists>msg. promise (onready env c x st) (xhr_id c) =
               Some (Failure \<lparr>message = Some msg, data = Some (DValue (safeJSON env msg)),
                              httpStatus = Some (status x),
                              grpcCode = map_option (Number env) (getResponseHeader x GRPC_STATUS)\<rparr>)
             \<and> msg = (case getResponseHeader x GRPC_STATUS of
                        None \<Rightarrow> ''Failed to parse GRPC status''
                      | Some s \<Rightarrow>
                          (case getResponseHeader x GRPC_MESSAGE of Some m \<Rightarrow> m | None \<Rightarrow> ''''))))
         \<and> (chunks \<noteq> [] \<longrightarrow>
              (\<forall>h. promise (onready env c x st) (xhr_id c) =
                     scan_chunks env (x\<lparr>getResponseHeader := h\<rparr>) b chunks))"
proof -
  have scan: "scan_chunks env (x\<lparr>getResponseHeader := h\<rparr>) b ds = scan_chunks env x b ds" for h ds
    by (induction ds) (simp_all add: Let_def split: sum.splits option.splits)
  show ?thesis
    using assms
    by (cases "getResponseHeader x GRPC_STATUS")
       (auto simp add: promise_onready onready_outcome_def header_outcome_def Let_def scan)
qed

theorem zero_frames_fallback_witness:
  "promise
     (onready (example_env []) (example_call None)
        (example_xhr 200 (Some [1]) (map_of [(''grpc-status'', ''3'')])) init_state) 0 =
   Some (Failure \<lparr>message = Some '''', data = Some (DValue ''''),
                  httpStatus = Some 200, grpcCode = Some (Finite 3)\<rparr>)
   \<and> promise
     (onready (example_env []) (example_call None)
        (example_xhr 200 (Some [1]) Map.empty) init_state) 0 =
   Some (Failure \<lparr>message = Some ''Failed to parse GRPC status'',
                  data = Some (DValue ''Failed to parse GRPC status''),
                  httpStatus = Some 200, grpcCode = None\<rparr>)"
proof -
  let ?env = "example_env []"
  let ?x = "example_xhr 200 (Some [1]) (map_of [(''grpc-status'', ''3'')])"
  let ?y = "example_xhr 200 (Some [1]) Map.empty"
  have x1: "200 \<le> status ?x" and x2: "status ?x < 300" and x3: "toInt8 ?env ?x = Some [1]"
    and y1: "200 \<le> status ?y" and y2: "status ?y < 300" and y3: "toInt8 ?env ?y = Some [1]"
    and h4: "chunkParse ?env [1] = Inr []"
    by (simp_all add: example_xhr_def example_env_def)
  have h5: "promise (init_state :: (bytes, string, string) state) (xhr_id (example_call None)) = None"
    by (simp add: init_state_def)
  from zero_frames_fallback [OF x1 x2 x3 h4 h5] zero_frames_fallback [OF y1 y2 y3 h4 h5]
  show ?thesis
    by (auto simp add: example_call_def example_xhr_def example_env_def example_Number_def
        GRPC_STATUS_def GRPC_MESSAGE_def)
qed

text \<open>
  C5, as stated, fails when \<^verbatim>\<open>debug\<close> is on and a sink throws:
  the message decodes, yet the \<^verbatim>\<open>catch\<close> of the MESSAGE branch receives the
  logger's exception and the call resolves to \<open>Decode error\<close>.
\<close>

theorem message_first_outcome_counterexample:
  "status (example_xhr 200 (Some [1]) Map.empty) = 200
   \<and> toInt8 (debug_env [Message [10, 20]] failing_logger) (example_xhr 200 (Some [1]) Map.empty) = Some [1]
   \<and> chunkParse (debug_env [Message [10, 20]] failing_logger) [1] = Inr [Message [10, 20]]
   \<and> Decode (debug_env [Message [10, 20]] failing_logger) [10, 20] = Inr [10, 20]
   \<and> promise
       (onready (debug_env [Message [10, 20]] failing_logger) (example_call None)
          (example_xhr 200 (Some [1]) Map.empty) init_state) 0 =
       Some (Failure \<lparr>message = Some ''Decode error'', data = Some (DThrown ''logger failed''),
                      httpStatus = Some 200, grpcCode = None\<rparr>)
   \<and> promise
       (onready (debug_env [Message [10, 20]] failing_logger) (example_call None)
          (example_xhr 200 (Some [1]) Map.empty) init_state) 0 \<noteq> Some (Success [10, 20])"
proof -
  let ?env = "debug_env [Message [10, 20]] failing_logger"
  let ?x = "example_xhr 200 (Some [1]) Map.empty"
  have id: "xhr_id (example_call None) = 0"
    by (simp add: example_call_def)
  have "promise (onready ?env (example_call None) ?x init_state) (xhr_id (example_call None)) =
       Some (Failure \<lparr>message = Some ''Decode error'', data = Some (DThrown ''logger failed''),
                      httpStatus = Some 200, grpcCode = None\<rparr>)"
    by (simp add: promise_onready onready_outcome_def debug_response_def logger_warn_def
        debug_env_def example_env_def example_xhr_def init_state_def failing_logger_def)
  then show ?thesis
    unfolding id by (simp add: debug_env_def example_env_def example_xhr_def)
qed

text \<open>
  C5, restated.  A load event with a 2xx status whose chunk list has a Message
  chunk before any Trailers chunk (a list that starts with a Message chunk), when
  \<^verbatim>\<open>debug\<close> is off or the debug block at the head of the \<^verbatim>\<open>try\<close> returns
  normally, resolves a pending call to the success carrying the decoded payload
  of that chunk; when the decoder throws, to the failure \<open>Decode error\<close> with
  the exception as \<open>data\<close> and the transport status as \<open>httpStatus\<close>.
\<close>

theorem message_first_outcome:
  assumes "200 \<le> status x" and "status x < 300" and "toInt8 env x = Some b"
    and "chunkParse env b = Inr (Message p # rest)"
    and "promise st (xhr_id c) = None"
    and "\<not> debug env \<or> debug_response env b = None"
  shows "promise (onready env c x st) (xhr_id c) =
           Some (case Decode env p of
                   Inr v \<Rightarrow> Success v
                 | Inl e \<Rightarrow>
                     Failure \<lparr>message = Some ''Decode error'', data = Some (DThrown e),
                              httpStatus = Some (status x), grpcCode = None\<rparr>)"
proof -
  have "debug_response env b = None"
    using assms(6) by (auto simp add: debug_response_def)
  then show ?thesis
    using assms(1-5) by (simp add: promise_onready onready_outcome_def split: sum.splits)
qed

theorem message_first_outcome_witness:
  "promise
     (onready (debug_env [Message [10, 20], Trailers (map_of [(''grpc-status'', ''0'')])] quiet_logger)
        (example_call None) (example_xhr 200 (Some [1]) Map.empty) init_state) 0 =
   Some (Success [10, 20])
   \<and> promise
     (onready
        ((example_env [Message [10, 20], Trailers (map_of [(''grpc-status'', ''0'')])])
           \<lparr>Decode := \<lambda>b. Inl ''bad wire type''\<rparr>)
        (example_call None) (example_xhr 200 (Some [1]) Map.empty) init_state) 0 =
   Some (Failure \<lparr>message = Some ''Decode error'', data = Some (DThrown ''bad wire type''),
                  httpStatus = Some 200, grpcCode = None\<rparr>)"
proof -
  let ?cs = "[Message [10, 20], Trailers (map_of [(''grpc-status'', ''0'')])]"
  let ?env = "debug_env ?cs quiet_logger"
  let ?env' = "(example_env ?cs)\<lparr>Decode := \<lambda>b. Inl ''bad wire type''\<rparr>"
  let ?x = "example_xhr 200 (Some [1]) Map.empty"
  have h1: "200 \<le> status ?x" and h2: "status ?x < 300"
    and h3: "toInt8 ?env ?x = Some [1]" and h3': "toInt8 ?env' ?x = Some [1]"
    and h4: "chunkParse ?env [1] = Inr (Message [10, 20] # [Trailers (map_of [(''grpc-status'', ''0'')])])"
    and h4': "chunkParse ?env' [1] = Inr (Message [10, 20] # [Trailers (map_of [(''grpc-status'', ''0'')])])"
    and h6: "\<not> debug ?env \<or> debug_response ?env [1] = None"
    and h6': "\<not> debug ?env' \<or> debug_response ?env' [1] = None"
    by (simp_all add: example_xhr_def example_env_def debug_env_def debug_response_def
        logger_warn_def quiet_logger_def)
  have h5: "promise (init_state :: (bytes, string, string) state) (xhr_id (example_call None)) = None"
    by (simp add: init_state_def)
  from message_first_outcome [OF h1 h2 h3 h4 h5 h6] message_first_outcome [OF h1 h2 h3' h4' h5 h6']
  show ?thesis
    by (simp add: example_call_def example_xhr_def example_env_def debug_env_def)
qed

section \<open>Timeout, abort and error\<close>




section \<open>The catch-all\<close>

text \<open>
  C8, as stated, fails when the logger's \<^verbatim>\<open>error\<close> method
  throws: it is called inside the handler of the final \<^verbatim>\<open>catch\<close>, so the
  promise handed to the caller rejects with the logger's exception.
\<close>

theorem rejection_caught_counterexample:
  "promise_chain ((example_env [])\<lparr>logger := Some failing_logger\<rparr>)
     (Some (\<lambda>d. Inl ''transform failed'')) (Success [1]) = Inl ''logger failed''"
  by (simp add: promise_chain_def catch_p_def then_p_def on_rejected_def logger_error_def
      devtool_step_def example_env_def failing_logger_def)

text \<open>
  C8, restated.  When no logger is configured or its \<^verbatim>\<open>error\<close> method returns
  normally for every reason, the promise handed to the caller is always
  fulfilled.  A rejection that reaches the final \<^verbatim>\<open>catch\<close> with reason \<open>e\<close>,
  from the devtool step or from a \<^verbatim>\<open>transformResponse\<close> that throws \<open>e\<close>,
  becomes the failure whose only member is \<open>data = e\<close>; without a rejection the
  outcome, transformed when the hook is configured, is handed on.
\<close>

theorem rejection_caught:
  fixes out :: "('v, 'e, 'a) GOutput" and p :: "'e + ('v, 'e, 'a) GOutput"
    and env :: "('v, 'e, 'a, 'r, 'q) env"
  assumes quiet: "\<forall>reason. logger_error env reason = None"
  shows "(\<exists>r. promise_chain env tr out = Inr r)
       \<and> (\<exists>r. catch_p (on_rejected env) p = Inr r)
       \<and> catch_p (on_rejected env) (Inl e) =
           Inr (Failure \<lparr>message = None, data = Some (DThrown e), httpStatus = None,
                         grpcCode = None\<rparr>)
       \<and> (devtool_step env out = Inl e \<longrightarrow>
             promise_chain env tr out =
               Inr (Failure \<lparr>message = None, data = Some (DThrown e), httpStatus = None,
                             grpcCode = None\<rparr>))
       \<and> (\<forall>f. tr = Some f \<longrightarrow> devtool_step env out = Inr out \<longrightarrow> f out = Inl e \<longrightarrow>
             promise_chain env tr out =
               Inr (Failure \<lparr>message = None, data = Some (DThrown e), httpStatus = None,
                             grpcCode = None\<rparr>))
       \<and> (\<forall>f r. tr = Some f \<longrightarrow> devtool_step env out = Inr out \<longrightarrow> f out = Inr r \<longrightarrow>
             promise_chain env tr out = Inr r)
       \<and> (tr = None \<longrightarrow> devtool_step env out = Inr out \<longrightarrow> promise_chain env tr out = Inr out)"
proof -
  have handler: "on_rejected env reason =
      Inr (Failure \<lparr>message = None, data = Some (DThrown reason), httpStatus = None,
                    grpcCode = None\<rparr>)" for reason
    using quiet by (simp add: on_rejected_def)
  have caught: "\<exists>r. catch_p (on_rejected env) q = Inr r" for q :: "'e + ('v, 'e, 'a) GOutput"
    by (cases q) (simp_all add: catch_p_def handler)
  have chain: "\<exists>r. promise_chain env tr out = Inr r"
    unfolding promise_chain_def by (rule caught)
  show ?thesis
    using chain caught [of p]
    by (auto simp add: promise_chain_def catch_p_def then_p_def handler)
qed

theorem rejection_caught_witness:
  "promise_chain ((example_env [])\<lparr>logger := Some quiet_logger\<rparr>)
     (Some (\<lambda>d. Inl ''transform failed'')) (Success [1]) =
   Inr (Failure \<lparr>message = None, data = Some (DThrown ''transform failed''),
                 httpStatus = None, grpcCode = None\<rparr>)"
proof -
  let ?env = "(example_env [])\<lparr>logger := Some quiet_logger\<rparr>"
  let ?f = "\<lambda>d :: (bytes, string, string) GOutput.
              (Inl ''transform failed'' :: string + (bytes, string, string) GOutput)"
  have q: "\<forall>reason. logger_error ?env reason = None"
    by (simp add: logger_error_def quiet_logger_def)
  have h1: "Some ?f = Some ?f" and h2: "?f (Success [1]) = Inl ''transform failed''"
    and h3: "devtool_step ?env (Success [1]) = Inr (Success [1])"
    by (simp_all add: devtool_step_def example_env_def)
  from rejection_caught [OF q, of "Some ?f" "Success [1]" "Inl ''transform failed''"
      "''transform failed''"]
  have "promise_chain ?env (Some ?f) (Success [1]) =
     Inr (Failure \<lparr>message = None, data = Some (DThrown ''transform failed''),
                   httpStatus = None, grpcCode = None\<rparr>)"
    using h1 h2 h3 by blast
  then show ?thesis .
qed

text \<open>
  A throw on the request side is no rejection of this chain: it ends the
  \<^verbatim>\<open>async\<close> executor, whose own promise nothing handles.  Nothing is sent and
  the promise of the call stays as it is.
\<close>

lemma executor_rejection_unhandled:
  assumes "request_side env values = Inl e"
  shows "promise (executor env c values st) = promise st
       \<and> sent (executor env c values st) = sent st
       \<and> unhandled (executor env c values st) = unhandled st @ [e]"
  using assms by (simp add: executor_def)

section \<open>Cancellation\<close>

text \<open>
  C10.  Calling a handle requests the abort stored in its slot, when there is
  one, and leaves the slot undefined; calling it again, with no write to the slot
  in between, requests nothing and changes nothing.  The handle that
  \<open>grpcCancel\<close> returns starts with an undefined slot.
\<close>

theorem cancel_handle_idempotent:
  "abort_slot (CancelFn h st) h = None
   \<and> abort_requests (CancelFn h st) =
       (case abort_slot st h of
          Some (AbortXHR i) \<Rightarrow> abort_requests st @ [i]
        | None \<Rightarrow> abort_requests st)
   \<and> abort_requests (CancelFn h (CancelFn h st)) = abort_requests (CancelFn h st)
   \<and> CancelFn h (CancelFn h st) = CancelFn h st
   \<and> abort_slot (snd (grpcCancel st)) (fst (grpcCancel st)) = None"
proof -
  have slot: "abort_slot (CancelFn h s) h = None" for s :: "('a, 'b, 'c) state"
    by (simp add: CancelFn_def invoke_def Let_def split: option.splits callback.splits)
  have again: "CancelFn h s = s" if "abort_slot s h = None" for s :: "('a, 'b, 'c) state"
  proof -
    have "(abort_slot s)(h := None) = abort_slot s"
      using that by (simp add: fun_upd_idem)
    then show ?thesis
      using that by (simp add: CancelFn_def)
  qed
  have twice: "CancelFn h (CancelFn h st) = CancelFn h st"
    by (rule again) (rule slot)
  have reqs: "abort_requests (CancelFn h st) =
       (case abort_slot st h of
          Some (AbortXHR i) \<Rightarrow> abort_requests st @ [i]
        | None \<Rightarrow> abort_requests st)"
    by (simp add: CancelFn_def invoke_def Let_def split: option.splits callback.splits)
  show ?thesis
    using slot [of st] twice reqs by (simp add: grpcCancel_def)
qed

theorem cancel_handle_idempotent_witness:
  "abort_slot handle_state 0 = Some (AbortXHR 0)
   \<and> abort_requests (CancelFn 0 handle_state) = [0]
   \<and> abort_requests (CancelFn 0 (CancelFn 0 handle_state)) = [0]
   \<and> abort_slot (CancelFn 0 handle_state) 0 = None"
proof -
  have slot: "abort_slot handle_state 0 = Some (AbortXHR 0)"
    and reqs: "abort_requests handle_state = []"
    by (simp_all add: handle_state_eq)
  from cancel_handle_idempotent [of 0 handle_state]
  show ?thesis
    by (simp add: slot reqs)
qed




end
